theory Spec2Isabelle
  imports Main "HOL-Library.Sublist"
begin

section \<open>The appointment ledger of the voice booking agent\<close>

text \<open>
  The development embeds \<^verbatim>\<open>utils.py\<close> (the ledger: \<^verbatim>\<open>get_free_slots\<close>,
  \<^verbatim>\<open>store_appointment\<close>, \<^verbatim>\<open>cancel_appointment\<close>) and the three tools of
  \<^verbatim>\<open>booking.py\<close> that call it. Python text is a \<open>string\<close>; an exception is the
  \<open>Inl\<close> of a sum; the file system and every other effect (opening a file, rewriting
  it, \<^verbatim>\<open>print\<close>, \<^verbatim>\<open>session.say\<close>, \<^verbatim>\<open>logger.error\<close>) are threaded through an
  explicit \<open>world\<close>.
\<close>

subsection \<open>Text: \<^verbatim>\<open>str.lower\<close>, \<^verbatim>\<open>str.strip\<close>, \<^verbatim>\<open>str(int)\<close>\<close>

text \<open>
  A character is a code point below 256 (Latin-1). \<^verbatim>\<open>str.lower\<close> maps \<^verbatim>\<open>A..Z\<close>
  (65 to 90) and the accented capitals (192 to 222, but not the multiplication sign
  215) to the letter 32 places on; \<^verbatim>\<open>str.strip\<close> removes the characters for which
  \<^verbatim>\<open>str.isspace\<close> holds from both ends: 9 to 13, 28 to 32, 133 (next line) and 160
  (no-break space).
\<close>

definition lower_char :: "char \<Rightarrow> char" where
  "lower_char c =
     (if (65::nat) \<le> of_char c \<and> of_char c \<le> (90::nat)
         \<or> (192::nat) \<le> of_char c \<and> of_char c \<le> (222::nat) \<and> of_char c \<noteq> (215::nat)
      then char_of (of_char c + (32::nat)) else c)"

definition lower :: "string \<Rightarrow> string" where
  "lower s = map lower_char s"

definition isspace :: "char \<Rightarrow> bool" where
  "isspace c =
     ((9::nat) \<le> of_char c \<and> of_char c \<le> (13::nat)
      \<or> (28::nat) \<le> of_char c \<and> of_char c \<le> (32::nat)
      \<or> of_char c = (133::nat) \<or> of_char c = (160::nat))"

definition strip :: "string \<Rightarrow> string" where
  "strip s = rev (dropWhile isspace (rev (dropWhile isspace s)))"

definition digit_char :: "nat \<Rightarrow> char" where
  "digit_char n = char_of (48 + n)"

function show_nat :: "nat \<Rightarrow> string" where
  "show_nat n = (if n < 10 then [digit_char n] else show_nat (n div 10) @ [digit_char (n mod 10)])"
  by pat_completeness auto
termination
  by (relation "measure id") auto

definition show_int :: "int \<Rightarrow> string" where
  "show_int i = (if i < 0 then CHR ''-'' # show_nat (nat (- i)) else show_nat (nat i))"

subsection \<open>Exceptions and Python values\<close>

text \<open>
  \<open>Exception\<close> stands for any exception class other than the two the source names in
  its \<^verbatim>\<open>except\<close> clauses; the string is \<^verbatim>\<open>str(e)\<close>.
\<close>

datatype exn = ValueError string | TypeError string | Exception string

fun exn_str :: "exn \<Rightarrow> string" where
  "exn_str (ValueError m) = m"
| "exn_str (TypeError m) = m"
| "exn_str (Exception m) = m"

text \<open>
  The cells of a \<^verbatim>\<open>pandas\<close> column after \<^verbatim>\<open>read_csv\<close>: text, or what the type
  inference of the library made of the text. A float carries the text \<^verbatim>\<open>str\<close> gives
  for it (\<^verbatim>\<open>nan\<close> for a missing cell).
\<close>

datatype pyval = PStr string | PInt int | PBool bool | PFloat string

fun py_str :: "pyval \<Rightarrow> string" where
  "py_str (PStr s) = s"
| "py_str (PInt i) = show_int i"
| "py_str (PBool b) = (if b then ''True'' else ''False'')"
| "py_str (PFloat s) = s"

fun type_name :: "pyval \<Rightarrow> string" where
  "type_name (PStr s) = ''str''"
| "type_name (PInt i) = ''int''"
| "type_name (PBool b) = ''bool''"
| "type_name (PFloat s) = ''float''"

subsection \<open>The ledger table and the world\<close>

text \<open>
  One row of the CSV file, as \<^verbatim>\<open>csv.DictReader\<close> yields it under the header
  \<^verbatim>\<open>date,time,is_booked,purpose,name\<close>: five text cells. A file is its list of rows;
  a path with no file maps to \<open>None\<close>.
\<close>

record row =
  date :: string
  time :: string
  is_booked :: string
  purpose :: string
  name :: string

datatype io_event =
    OpenRead string
  | WriteFile string
  | Print string
  | Say string
  | LogError string

record world =
  files :: "string \<Rightarrow> row list option"
  io_log :: "io_event list"

definition emit :: "world \<Rightarrow> io_event list \<Rightarrow> world" where
  "emit w evs = w\<lparr>io_log := io_log w @ evs\<rparr>"

definition write_rows :: "world \<Rightarrow> string \<Rightarrow> row list \<Rightarrow> world" where
  "write_rows w path rows =
     w\<lparr>files := (files w)(path := Some rows), io_log := io_log w @ [WriteFile path]\<rparr>"

subsection \<open>The libraries the ledger calls\<close>

text \<open>
  \<^verbatim>\<open>dateutil\<close> and \<^verbatim>\<open>pandas\<close> are not part of the repository; the ledger is
  modelled over any behaviour of theirs:
  \<^item> \<open>parse_date s\<close> is \<^verbatim>\<open>parser.parse(s, dayfirst=True).strftime("%Y-%m-%d")\<close>, or the
    exception it raises;
  \<^item> \<open>to_datetime_cell col c\<close> is what
    \<^verbatim>\<open>pd.to_datetime(df['date']).dt.strftime("%Y-%m-%d")\<close> makes of the cell \<open>c\<close> of the
    date column \<open>col\<close> (\<open>None\<close> for a missing date), or the exception raised on it;
  \<^item> \<open>read_cell col c\<close> is the value \<^verbatim>\<open>pd.read_csv\<close> gives the cell \<open>c\<close> of the
    column \<open>col\<close>.
\<close>

record libs =
  parse_date :: "string \<Rightarrow> exn + string"
  to_datetime_cell :: "string list \<Rightarrow> string \<Rightarrow> exn + string option"
  read_cell :: "string list \<Rightarrow> string \<Rightarrow> pyval"

fun sequence :: "('e + 'a) list \<Rightarrow> 'e + 'a list" where
  "sequence [] = Inr []"
| "sequence (Inl e # xs) = Inl e"
| "sequence (Inr x # xs) = (case sequence xs of Inl e \<Rightarrow> Inl e | Inr ys \<Rightarrow> Inr (x # ys))"

definition to_datetime :: "libs \<Rightarrow> string list \<Rightarrow> exn + string option list" where
  "to_datetime L col = sequence (map (to_datetime_cell L col) col)"

text \<open>
  \<^verbatim>\<open>except (ValueError, TypeError) as e: raise ValueError(f"Unable to parse the date: {date}")\<close>;
  an exception of another class passes through.
\<close>

fun reraise :: "string \<Rightarrow> exn \<Rightarrow> exn" where
  "reraise date' (ValueError m) = ValueError (''Unable to parse the date: '' @ date')"
| "reraise date' (TypeError m) = ValueError (''Unable to parse the date: '' @ date')"
| "reraise date' (Exception m) = Exception m"

subsection \<open>\<^verbatim>\<open>utils.get_free_slots\<close>\<close>

definition is_free :: "libs \<Rightarrow> string list \<Rightarrow> string \<Rightarrow> string option \<times> row \<Rightarrow> bool" where
  "is_free L booked_col formatted_date dr =
     (fst dr = Some formatted_date
      \<and> lower (py_str (read_cell L booked_col (is_booked (snd dr)))) = ''false'')"

definition get_free_slots ::
  "libs \<Rightarrow> world \<Rightarrow> string \<Rightarrow> string \<Rightarrow> (exn + pyval list) \<times> world" where
  "get_free_slots L w appointment_csv date' =
     (case parse_date L date' of
        Inl e \<Rightarrow> (Inl (reraise date' e), w)
      | Inr formatted_date \<Rightarrow>
          (case files w appointment_csv of
             None \<Rightarrow>
               (Inr [], emit w [OpenRead appointment_csv,
                                Print (''CSV file not found: '' @ appointment_csv)])
           | Some df \<Rightarrow>
               (case to_datetime L (map date df) of
                  Inl e \<Rightarrow> (Inl e, emit w [OpenRead appointment_csv])
                | Inr dates \<Rightarrow>
                    (Inr (map (\<lambda>dr. read_cell L (map time df) (time (snd dr)))
                            (filter (is_free L (map is_booked df) formatted_date)
                               (zip dates df))),
                     emit w [OpenRead appointment_csv]))))"

subsection \<open>\<^verbatim>\<open>utils.store_appointment\<close>\<close>

text \<open>The \<^verbatim>\<open>for row in reader\<close> loop, with its two variables \<^verbatim>\<open>rows\<close> and \<^verbatim>\<open>updated\<close>.\<close>

fun store_loop ::
  "string \<Rightarrow> string \<Rightarrow> string \<Rightarrow> string \<Rightarrow> row list \<Rightarrow> row list \<times> bool \<Rightarrow> row list \<times> bool" where
  "store_loop formatted_date time' purpose' name' [] (rows, updated) = (rows, updated)"
| "store_loop formatted_date time' purpose' name' (r # reader) (rows, updated) =
     (if date r = formatted_date \<and> time r = time' then
        (if lower (is_booked r) = ''false'' then
           store_loop formatted_date time' purpose' name' reader
             (rows @ [r\<lparr>is_booked := ''True'', purpose := purpose', name := name'\<rparr>], True)
         else store_loop formatted_date time' purpose' name' reader (rows @ [r], updated))
      else store_loop formatted_date time' purpose' name' reader (rows @ [r], updated))"

definition store_appointment ::
  "libs \<Rightarrow> world \<Rightarrow> string \<Rightarrow> string \<Rightarrow> string \<Rightarrow> string \<Rightarrow> string \<Rightarrow> (exn + bool) \<times> world" where
  "store_appointment L w appointment_csv date' time' purpose' name' =
     (case parse_date L date' of
        Inl e \<Rightarrow> (Inl (reraise date' e), w)
      | Inr formatted_date \<Rightarrow>
          (case files w appointment_csv of
             None \<Rightarrow>
               (Inr False, emit w [OpenRead appointment_csv,
                                   Print (''CSV file not found: '' @ appointment_csv)])
           | Some reader \<Rightarrow>
               (case store_loop formatted_date time' purpose' name' reader ([], False) of
                  (rows, updated) \<Rightarrow>
                    if updated
                    then (Inr True, write_rows (emit w [OpenRead appointment_csv]) appointment_csv rows)
                    else (Inr False, emit w [OpenRead appointment_csv]))))"

subsection \<open>\<^verbatim>\<open>utils.cancel_appointment\<close>\<close>

fun cancel_loop ::
  "string \<Rightarrow> string \<Rightarrow> row list \<Rightarrow> row list \<times> bool \<Rightarrow> row list \<times> bool" where
  "cancel_loop formatted_date name' [] (rows, updated) = (rows, updated)"
| "cancel_loop formatted_date name' (r # reader) (rows, updated) =
     (if date r = formatted_date
         \<and> lower (strip (name r)) = lower (strip name')
         \<and> lower (strip (is_booked r)) = ''true''
      then cancel_loop formatted_date name' reader
             (rows @ [r\<lparr>is_booked := ''False'', name := [], purpose := []\<rparr>], True)
      else cancel_loop formatted_date name' reader (rows @ [r], updated))"

definition cancel_appointment ::
  "libs \<Rightarrow> world \<Rightarrow> string \<Rightarrow> string \<Rightarrow> string \<Rightarrow> (exn + bool) \<times> world" where
  "cancel_appointment L w appointment_csv date' name' =
     (case parse_date L date' of
        Inl e \<Rightarrow> (Inl (reraise date' e), w)
      | Inr formatted_date \<Rightarrow>
          (case files w appointment_csv of
             None \<Rightarrow>
               (Inr False, emit w [OpenRead appointment_csv,
                                   Print (''CSV file not found: '' @ appointment_csv)])
           | Some reader \<Rightarrow>
               (case cancel_loop formatted_date name' reader ([], False) of
                  (rows, updated) \<Rightarrow>
                    if updated
                    then (Inr True, write_rows (emit w [OpenRead appointment_csv]) appointment_csv rows)
                    else (Inr False, emit w [OpenRead appointment_csv]))))"

subsection \<open>The tools of \<^verbatim>\<open>booking.AppointmentAgent\<close>\<close>

text \<open>
  The fields of \<^verbatim>\<open>UserData\<close> that hold data (\<^verbatim>\<open>personas\<close>, \<^verbatim>\<open>prev_agent\<close> and
  \<^verbatim>\<open>ctx\<close> are handles of the voice layer). Its \<^verbatim>\<open>purpose\<close> and \<^verbatim>\<open>name\<close> are
  prefixed, the plain names being the columns of a row.
\<close>

record UserData =
  appointment_csv :: string
  selected_date :: "string option"
  selected_time :: "string option"
  userdata_purpose :: "string option"
  userdata_name :: "string option"
  awaiting_confirmation :: bool

text \<open>
  \<^verbatim>\<open>sep.join(items)\<close>: a \<^verbatim>\<open>TypeError\<close> at the first item that is not a \<^verbatim>\<open>str\<close>.
  The counter is the index of the head of the list.
\<close>

fun join_from :: "nat \<Rightarrow> string \<Rightarrow> pyval list \<Rightarrow> exn + string" where
  "join_from i sep [] = Inr []"
| "join_from i sep (PStr s # items) =
     (case join_from (Suc i) sep items of
        Inl e \<Rightarrow> Inl e
      | Inr rest \<Rightarrow> Inr (if items = [] then s else s @ sep @ rest))"
| "join_from i sep (v # items) =
     Inl (TypeError (''sequence item '' @ show_nat i @ '': expected str instance, ''
                     @ type_name v @ '' found''))"

definition join :: "string \<Rightarrow> pyval list \<Rightarrow> exn + string" where
  "join sep items = join_from 0 sep items"

definition AppointmentAgent_get_available_slots ::
  "libs \<Rightarrow> UserData \<Rightarrow> world \<Rightarrow> string \<Rightarrow> (exn + pyval list) \<times> UserData \<times> world" where
  "AppointmentAgent_get_available_slots L userdata w date' =
     (let userdata = userdata\<lparr>selected_date := Some date'\<rparr> in
      if files w (appointment_csv userdata) = None then
        (Inr [], userdata,
         emit w [Say ''Sorry, the appointment system is currently unavailable.'',
                 LogError (''Appointment CSV file not found: '' @ appointment_csv userdata)])
      else
        (case get_free_slots L w (appointment_csv userdata) date' of
           (Inl e, w1) \<Rightarrow>
             (Inr [], userdata,
              emit w1 [Say ''Sorry, I encountered an error retrieving slots.'',
                       LogError (''Error retrieving free slots: '' @ exn_str e)])
         | (Inr slots, w1) \<Rightarrow>
             if slots \<noteq> [] then
               (case join '', '' slots of
                  Inl e \<Rightarrow> (Inl e, userdata, w1)
                | Inr joined \<Rightarrow>
                    (Inr slots, userdata,
                     emit w1 [Say (''The available slots on '' @ date' @ '' are: '' @ joined)]))
             else
               (Inr slots, userdata,
                emit w1 [Say (''Sorry, there are no available slots on '' @ date' @ ''.'')])))"

definition AppointmentAgent_appointment_saved ::
  "libs \<Rightarrow> UserData \<Rightarrow> world \<Rightarrow> string \<Rightarrow> string \<Rightarrow> string \<Rightarrow> string
     \<Rightarrow> (exn + string) \<times> UserData \<times> world" where
  "AppointmentAgent_appointment_saved L userdata w date' time' purpose' name' =
     (case store_appointment L w (appointment_csv userdata) date' time' purpose' name' of
        (Inl e, w1) \<Rightarrow> (Inl e, userdata, w1)
      | (Inr saved, w1) \<Rightarrow>
          (let status_msg =
             (if saved then ''The appointment has been saved.''
              else ''There was an error saving the appointment.'')
           in (Inr status_msg, userdata, emit w1 [Say status_msg])))"

definition AppointmentAgent_cancel_appointment ::
  "libs \<Rightarrow> UserData \<Rightarrow> world \<Rightarrow> string \<Rightarrow> string \<Rightarrow> (exn + string) \<times> UserData \<times> world" where
  "AppointmentAgent_cancel_appointment L userdata w name' date' =
     (case cancel_appointment L w ''appointments.csv'' date' name' of
        (Inl e, w1) \<Rightarrow> (Inl e, userdata, w1)
      | (Inr success, w1) \<Rightarrow>
          (let msg =
             (if success then ''Your appointment has been canceled.''
              else ''Could not find an appointment to cancel.'')
           in (Inr msg, userdata, emit w1 [Say msg])))"

subsection \<open>A library environment for concrete runs\<close>

text \<open>
  The theorems below hold for every \<open>libs\<close>. Concrete runs use \<open>sample_libs\<close>, which
  gives the answers of \<^verbatim>\<open>dateutil\<close> and \<^verbatim>\<open>pandas\<close> on the few inputs listed:
  \<^item> \<^verbatim>\<open>parser.parse(s, dayfirst=True)\<close> reads \<^verbatim>\<open>30-05-2025\<close>, \<^verbatim>\<open>2025-05-30\<close> and
    \<^verbatim>\<open>May 30, 2025\<close> as 30 May 2025 and \<^verbatim>\<open>05-06-2025\<close> as 5 June 2025, rejects
    \<^verbatim>\<open>not-a-date\<close> with a \<^verbatim>\<open>ValueError\<close>, and leaves \<^verbatim>\<open>99999999999999999999\<close> with
    an \<^verbatim>\<open>OverflowError\<close>, which is neither a \<^verbatim>\<open>ValueError\<close> nor a \<^verbatim>\<open>TypeError\<close>;
  \<^item> \<^verbatim>\<open>pd.to_datetime\<close>, which is not given \<^verbatim>\<open>dayfirst\<close>, reads a column of
    \<^verbatim>\<open>2025-05-30\<close> and \<^verbatim>\<open>2025-5-30\<close> cells as 30 May 2025 and a column of
    \<^verbatim>\<open>05-06-2025\<close> cells as 6 May 2025;
  \<^item> \<^verbatim>\<open>pd.read_csv\<close> reads a column of \<^verbatim>\<open>True\<close>/\<^verbatim>\<open>False\<close> cells as booleans, a
    column of \<^verbatim>\<open>9\<close>/\<^verbatim>\<open>10\<close> cells as integers, and a column of \<^verbatim>\<open>10:00\<close> and
    \<^verbatim>\<open>11:00\<close> cells as text.
  On any other input the environment is a placeholder (a parse error, or the cell as
  text); no theorem runs it there.
\<close>

definition sample_parse_date :: "string \<Rightarrow> exn + string" where
  "sample_parse_date s =
     (if s = ''30-05-2025'' \<or> s = ''2025-05-30'' \<or> s = ''May 30, 2025'' then Inr ''2025-05-30''
      else if s = ''05-06-2025'' then Inr ''2025-06-05''
      else if s = ''99999999999999999999''
        then Inl (Exception ''Python int too large to convert to C long'')
      else Inl (ValueError (''Unknown string format: '' @ s)))"

definition sample_to_datetime_cell :: "string list \<Rightarrow> string \<Rightarrow> exn + string option" where
  "sample_to_datetime_cell col c =
     (if list_all (\<lambda>x. x = ''2025-05-30'' \<or> x = ''2025-5-30'') col then Inr (Some ''2025-05-30'')
      else if list_all (\<lambda>x. x = ''05-06-2025'') col then Inr (Some ''2025-05-06'')
      else Inl (ValueError (''Unknown datetime string format, unable to parse: '' @ c)))"

definition sample_read_cell :: "string list \<Rightarrow> string \<Rightarrow> pyval" where
  "sample_read_cell col c =
     (if list_all (\<lambda>x. x = ''True'' \<or> x = ''False'') col then PBool (c = ''True'')
      else if list_all (\<lambda>x. x = ''9'' \<or> x = ''10'') col then PInt (if c = ''9'' then 9 else 10)
      else PStr c)"

definition sample_libs :: libs where
  "sample_libs =
     \<lparr>parse_date = sample_parse_date,
      to_datetime_cell = sample_to_datetime_cell,
      read_cell = sample_read_cell\<rparr>"

definition no_files :: world where
  "no_files = \<lparr>files = (\<lambda>path. None), io_log = []\<rparr>"

definition with_file :: "string \<Rightarrow> row list \<Rightarrow> world" where
  "with_file path rows = \<lparr>files = (\<lambda>p. if p = path then Some rows else None), io_log = []\<rparr>"

definition slot :: "string \<Rightarrow> string \<Rightarrow> string \<Rightarrow> string \<Rightarrow> string \<Rightarrow> row" where
  "slot d t b p n = \<lparr>date = d, time = t, is_booked = b, purpose = p, name = n\<rparr>"

definition default_userdata :: UserData where
  "default_userdata =
     \<lparr>appointment_csv = ''appointments.csv'', selected_date = None, selected_time = None,
      userdata_purpose = None, userdata_name = None, awaiting_confirmation = False\<rparr>"

subsection \<open>What the two loops do to one row\<close>

definition book_row :: "string \<Rightarrow> string \<Rightarrow> string \<Rightarrow> string \<Rightarrow> row \<Rightarrow> row" where
  "book_row formatted_date time' purpose' name' r =
     (if date r = formatted_date \<and> time r = time' \<and> lower (is_booked r) = ''false''
      then r\<lparr>is_booked := ''True'', purpose := purpose', name := name'\<rparr> else r)"

definition cancel_row :: "string \<Rightarrow> string \<Rightarrow> row \<Rightarrow> row" where
  "cancel_row formatted_date name' r =
     (if date r = formatted_date \<and> lower (strip (name r)) = lower (strip name')
         \<and> lower (strip (is_booked r)) = ''true''
      then r\<lparr>is_booked := ''False'', name := [], purpose := []\<rparr> else r)"

text \<open>The condition under which the loop of \<^verbatim>\<open>cancel_appointment\<close> changes a row.\<close>

definition cancels :: "string \<Rightarrow> string \<Rightarrow> row \<Rightarrow> bool" where
  "cancels formatted_date name' r =
     (date r = formatted_date \<and> lower (strip (name r)) = lower (strip name')
      \<and> lower (strip (is_booked r)) = ''true'')"

fun is_write :: "io_event \<Rightarrow> bool" where
  "is_write (WriteFile p) = True"
| "is_write e = False"

text \<open>
  How a row stands to the row a call leaves in its place, when the call changed it;
  \<open>listed\<close> is the filter of \<^verbatim>\<open>get_free_slots\<close> on one row of the table \<open>df\<close>.
\<close>

definition booked_from :: "libs \<Rightarrow> string \<Rightarrow> string \<Rightarrow> string \<Rightarrow> string \<Rightarrow> row \<Rightarrow> row \<Rightarrow> bool" where
  "booked_from L date' time' purpose' name' r r' =
     (\<exists>formatted_date. parse_date L date' = Inr formatted_date
        \<and> date r = formatted_date \<and> time r = time' \<and> lower (is_booked r) = ''false''
        \<and> r' = r\<lparr>is_booked := ''True'', purpose := purpose', name := name'\<rparr>)"

definition cancelled_from :: "libs \<Rightarrow> string \<Rightarrow> string \<Rightarrow> row \<Rightarrow> row \<Rightarrow> bool" where
  "cancelled_from L date' name' r r' =
     (\<exists>formatted_date. parse_date L date' = Inr formatted_date
        \<and> date r = formatted_date \<and> lower (strip (name r)) = lower (strip name')
        \<and> lower (strip (is_booked r)) = ''true''
        \<and> r' = r\<lparr>is_booked := ''False'', name := [], purpose := []\<rparr>)"

definition listed :: "libs \<Rightarrow> row list \<Rightarrow> string \<Rightarrow> row \<Rightarrow> bool" where
  "listed L df formatted_date r =
     (to_datetime_cell L (map date df) (date r) = Inr (Some formatted_date)
      \<and> lower (py_str (read_cell L (map is_booked df) (is_booked r))) = ''false'')"

subsection \<open>Tables for concrete runs\<close>

definition sample_table :: "row list" where
  "sample_table =
     [slot ''2025-05-30'' ''10:00'' ''False'' [] [],
      slot ''2025-05-30'' ''11:00'' ''True'' ''eye'' ''Bob'']"

text \<open>The same slot twice, the second time with the month written \<^verbatim>\<open>5\<close>.\<close>

definition two_spellings_table :: "row list" where
  "two_spellings_table =
     [slot ''2025-05-30'' ''10:00'' ''False'' [] [],
      slot ''2025-5-30'' ''10:00'' ''False'' [] []]"

text \<open>A free slot on a date written day first, as the callers of the ledger write dates.\<close>

definition day_first_table :: "row list" where
  "day_first_table = [slot ''05-06-2025'' ''10:00'' ''False'' [] []]"

text \<open>A free slot whose time label is the hour, a number.\<close>

definition hour_table :: "row list" where
  "hour_table = [slot ''2025-05-30'' ''9'' ''False'' [] []]"

text \<open>
  Two ledgers side by side: the one at the fixed path of the cancel tool, and the one
  of a session configured with \<^verbatim>\<open>clinic.csv\<close>. Bob has the 11:00 slot in both.
\<close>

definition two_ledgers :: world where
  "two_ledgers =
     \<lparr>files = (\<lambda>p. if p = ''appointments.csv'' \<or> p = ''clinic.csv'' then Some sample_table
                    else None),
      io_log = []\<rparr>"

text \<open>A session configured with a ledger of its own.\<close>

definition clinic_userdata :: UserData where
  "clinic_userdata = default_userdata\<lparr>appointment_csv := ''clinic.csv''\<rparr>"

section \<open>Properties\<close>

subsection \<open>The loops as maps\<close>

lemma store_loop_eq:
  "store_loop fd t p n reader (rows, updated) =
     (rows @ map (book_row fd t p n) reader,
      updated \<or> (\<exists>r\<in>set reader. date r = fd \<and> time r = t \<and> lower (is_booked r) = ''false''))"
  by (induction reader arbitrary: rows updated) (auto simp: book_row_def)

lemma cancel_loop_eq:
  "cancel_loop fd n reader (rows, updated) =
     (rows @ map (cancel_row fd n) reader,
      updated \<or> (\<exists>r\<in>set reader. date r = fd \<and> lower (strip (name r)) = lower (strip n)
                      \<and> lower (strip (is_booked r)) = ''true''))"
  by (induction reader arbitrary: rows updated) (auto simp: cancel_row_def)

lemma map_book_row_id:
  "\<not> (\<exists>r\<in>set rows. date r = fd \<and> time r = t \<and> lower (is_booked r) = ''false'')
   \<Longrightarrow> map (book_row fd t p n) rows = rows"
  by (induction rows) (auto simp: book_row_def)

lemma map_cancel_row_id:
  "\<not> (\<exists>r\<in>set rows. date r = fd \<and> lower (strip (name r)) = lower (strip n)
          \<and> lower (strip (is_booked r)) = ''true'')
   \<Longrightarrow> map (cancel_row fd n) rows = rows"
  by (induction rows) (auto simp: cancel_row_def)

lemma lower_strip_False: "lower (strip ''False'') \<noteq> ''true''"
  by code_simp

lemma lower_True: "lower ''True'' \<noteq> ''false''"
  by code_simp

lemma lower_False: "lower ''False'' = ''false''"
  by code_simp

lemma lower_strip_True: "lower (strip ''True'') = ''true''"
  by code_simp

lemma lower_strip_names: "lower (strip ''Bob'') = lower (strip ''bob'')"
  by code_simp

lemma show_nat_0: "show_nat 0 = ''0''"
  by code_simp

lemma cancel_row_unmatched:
  "\<not> (date (cancel_row fd n r) = fd \<and> lower (strip (name (cancel_row fd n r))) = lower (strip n)
       \<and> lower (strip (is_booked (cancel_row fd n r))) = ''true'')"
  using lower_strip_False by (auto simp: cancel_row_def)

subsection \<open>The files a call leaves\<close>

lemma files_emit: "files (emit w evs) = files w"
  by (simp add: emit_def)

lemma store_appointment_files:
  assumes "parse_date L d = Inr fd" and "files w path = Some rows"
  shows "files (snd (store_appointment L w path d t p n))
           = (files w)(path := Some (map (book_row fd t p n) rows))"
proof (cases "\<exists>r\<in>set rows. date r = fd \<and> time r = t \<and> lower (is_booked r) = ''false''")
  case True
  then show ?thesis using assms
    by (simp add: store_appointment_def store_loop_eq write_rows_def emit_def)
next
  case False
  from map_book_row_id [OF this] have "map (book_row fd t p n) rows = rows" .
  then show ?thesis using assms False
    by (auto simp: store_appointment_def store_loop_eq emit_def)
qed

lemma cancel_appointment_files:
  assumes "parse_date L d = Inr fd" and "files w path = Some rows"
  shows "files (snd (cancel_appointment L w path d n))
           = (files w)(path := Some (map (cancel_row fd n) rows))"
proof (cases "\<exists>r\<in>set rows. date r = fd \<and> lower (strip (name r)) = lower (strip n)
          \<and> lower (strip (is_booked r)) = ''true''")
  case True
  then show ?thesis using assms
    by (simp add: cancel_appointment_def cancel_loop_eq write_rows_def emit_def)
next
  case False
  from map_cancel_row_id [OF this] have "map (cancel_row fd n) rows = rows" .
  then show ?thesis using assms False
    by (auto simp: cancel_appointment_def cancel_loop_eq emit_def)
qed

lemma store_appointment_files_error:
  "parse_date L d = Inl e \<Longrightarrow> files (snd (store_appointment L w path d t p n)) = files w"
  by (simp add: store_appointment_def)

lemma cancel_appointment_files_error:
  "parse_date L d = Inl e \<Longrightarrow> files (snd (cancel_appointment L w path d n)) = files w"
  by (simp add: cancel_appointment_def)

lemma store_appointment_files_missing:
  "files w path = None \<Longrightarrow> files (snd (store_appointment L w path d t p n)) = files w"
  by (cases "parse_date L d") (simp_all add: store_appointment_def emit_def)

lemma cancel_appointment_files_missing:
  "files w path = None \<Longrightarrow> files (snd (cancel_appointment L w path d n)) = files w"
  by (cases "parse_date L d") (simp_all add: cancel_appointment_def emit_def)

lemma store_appointment_other_files:
  assumes "q \<noteq> path"
  shows "files (snd (store_appointment L w path d t p n)) q = files w q"
proof (cases "parse_date L d")
  case (Inl e)
  then show ?thesis by (simp add: store_appointment_files_error)
next
  case (Inr fd)
  show ?thesis
  proof (cases "files w path")
    case None
    then show ?thesis by (simp add: store_appointment_files_missing)
  next
    case (Some rows)
    from store_appointment_files [OF Inr Some] assms show ?thesis by simp
  qed
qed

lemma cancel_appointment_other_files:
  assumes "q \<noteq> path"
  shows "files (snd (cancel_appointment L w path d n)) q = files w q"
proof (cases "parse_date L d")
  case (Inl e)
  then show ?thesis by (simp add: cancel_appointment_files_error)
next
  case (Inr fd)
  show ?thesis
  proof (cases "files w path")
    case None
    then show ?thesis by (simp add: cancel_appointment_files_missing)
  next
    case (Some rows)
    from cancel_appointment_files [OF Inr Some] assms show ?thesis by simp
  qed
qed

lemma cancel_appointment_present:
  assumes "parse_date L d = Inr fd" and "files w path = Some rows"
  shows "cancel_appointment L w path d n
           = (if list_ex (cancels fd n) rows
              then (Inr True,
                    w\<lparr>files := (files w)(path := Some (map (cancel_row fd n) rows)),
                      io_log := io_log w @ [OpenRead path, WriteFile path]\<rparr>)
              else (Inr False, w\<lparr>io_log := io_log w @ [OpenRead path]\<rparr>))"
  using assms
  by (auto simp: cancel_appointment_def cancel_loop_eq write_rows_def emit_def cancels_def
        list_ex_iff)

lemma store_appointment_present:
  assumes "parse_date L d = Inr fd" and "files w path = Some rows"
  shows "store_appointment L w path d t p n
           = (if list_ex (\<lambda>r. date r = fd \<and> time r = t \<and> lower (is_booked r) = ''false'') rows
              then (Inr True,
                    w\<lparr>files := (files w)(path := Some (map (book_row fd t p n) rows)),
                      io_log := io_log w @ [OpenRead path, WriteFile path]\<rparr>)
              else (Inr False, w\<lparr>io_log := io_log w @ [OpenRead path]\<rparr>))"
  using assms
  by (auto simp: store_appointment_def store_loop_eq write_rows_def emit_def list_ex_iff)

subsection \<open>The free slots as a filter of the table\<close>

lemma sequence_Inr: "sequence xs = Inr ys \<Longrightarrow> xs = map Inr ys"
  by (induction xs arbitrary: ys rule: sequence.induct) (auto split: sum.splits)

lemma filter_zip_snd:
  assumes "length xs = length ys"
    and "\<forall>i<length ys. Q (xs ! i, ys ! i) = P (ys ! i)"
  shows "map snd (filter Q (zip xs ys)) = filter P ys"
  using assms
proof (induction xs ys rule: list_induct2)
  case Nil
  then show ?case by simp
next
  case (Cons x xs y ys)
  have h0: "Q (x, y) = P y" using Cons.prems by force
  have "\<forall>i<length ys. Q (xs ! i, ys ! i) = P (ys ! i)"
    using Cons.prems by force
  with Cons.IH have "map snd (filter Q (zip xs ys)) = filter P ys" by blast
  with h0 show ?case by simp
qed

lemma get_free_slots_filter:
  assumes "parse_date L d = Inr fd" and "files w path = Some df"
    and "get_free_slots L w path d = (Inr slots, w')"
  shows "slots = map (\<lambda>r. read_cell L (map time df) (time r)) (filter (listed L df fd) df)"
proof -
  obtain dates where dates: "to_datetime L (map date df) = Inr dates"
    using assms by (auto simp: get_free_slots_def split: sum.splits)
  then have eq: "map (to_datetime_cell L (map date df)) (map date df) = map Inr dates"
    by (simp add: to_datetime_def sequence_Inr)
  then have len: "length dates = length df"
    using length_map by metis
  have nth: "\<forall>i<length df. to_datetime_cell L (map date df) (date (df ! i)) = Inr (dates ! i)"
  proof (intro allI impI)
    fix i assume i: "i < length df"
    have "to_datetime_cell L (map date df) (date (df ! i))
            = map (to_datetime_cell L (map date df)) (map date df) ! i"
      using i by simp
    also have "\<dots> = map Inr dates ! i"
      by (simp only: eq)
    also have "\<dots> = Inr (dates ! i)"
      using i len by simp
    finally show "to_datetime_cell L (map date df) (date (df ! i)) = Inr (dates ! i)" .
  qed
  have "\<forall>i<length df. is_free L (map is_booked df) fd (dates ! i, df ! i) = listed L df fd (df ! i)"
    using nth by (simp add: is_free_def listed_def)
  from filter_zip_snd [OF len this]
  have sel: "map snd (filter (is_free L (map is_booked df) fd) (zip dates df))
               = filter (listed L df fd) df" .
  have "slots = map (\<lambda>dr. read_cell L (map time df) (time (snd dr)))
                  (filter (is_free L (map is_booked df) fd) (zip dates df))"
    using assms dates by (simp add: get_free_slots_def)
  also have "\<dots> = map (\<lambda>r. read_cell L (map time df) (time r))
                  (map snd (filter (is_free L (map is_booked df) fd) (zip dates df)))"
    by (simp add: comp_def)
  finally show ?thesis using sel by simp
qed

subsection \<open>Concrete runs of the library environment\<close>

lemma sample_parse_30_05: "parse_date sample_libs ''30-05-2025'' = Inr ''2025-05-30''"
  by (simp add: sample_libs_def sample_parse_date_def)

lemma sample_parse_not_a_date:
  "parse_date sample_libs ''not-a-date'' = Inl (ValueError ''Unknown string format: not-a-date'')"
  by (simp add: sample_libs_def sample_parse_date_def)

lemma sample_parse_overflow:
  "parse_date sample_libs ''99999999999999999999''
     = Inl (Exception ''Python int too large to convert to C long'')"
  by (simp add: sample_libs_def sample_parse_date_def)

lemma sample_table_file: "files (with_file path sample_table) path = Some sample_table"
  by (simp add: with_file_def)

lemma sample_table_free_slots:
  "get_free_slots sample_libs (with_file ''appointments.csv'' sample_table)
       ''appointments.csv'' ''30-05-2025''
     = (Inr [PStr ''10:00''],
        emit (with_file ''appointments.csv'' sample_table) [OpenRead ''appointments.csv''])"
  by (simp add: get_free_slots_def with_file_def sample_table_def slot_def lower_False
        lower_True emit_def to_datetime_def sample_libs_def sample_to_datetime_cell_def
        sample_read_cell_def is_free_def sample_parse_date_def)

section \<open>The claims\<close>

subsection \<open>Booking, then listing\<close>

text \<open>
  Claim C1 says that after a successful booking of a time on a date, the free slots of
  that date no longer hold the time. \<^verbatim>\<open>store_appointment\<close> compares the stored date
  text with the canonical date, \<^verbatim>\<open>get_free_slots\<close> compares the normalised stored date.
  On a table that holds the slot twice, under \<^verbatim>\<open>2025-05-30\<close> and under \<^verbatim>\<open>2025-5-30\<close>,
  booking \<^verbatim>\<open>10:00\<close> on \<^verbatim>\<open>30-05-2025\<close> succeeds (it books the first row), and the
  free slots of \<^verbatim>\<open>30-05-2025\<close> are then still \<^verbatim>\<open>["10:00"]\<close>, from the second row.
\<close>

theorem booked_slot_still_listed:
  "fst (store_appointment sample_libs (with_file ''appointments.csv'' two_spellings_table)
          ''appointments.csv'' ''30-05-2025'' ''10:00'' ''dentist'' ''Alice'') = Inr True
   \<and> files (snd (store_appointment sample_libs (with_file ''appointments.csv'' two_spellings_table)
          ''appointments.csv'' ''30-05-2025'' ''10:00'' ''dentist'' ''Alice'')) ''appointments.csv''
       = Some [slot ''2025-05-30'' ''10:00'' ''True'' ''dentist'' ''Alice'',
               slot ''2025-5-30'' ''10:00'' ''False'' [] []]
   \<and> fst (get_free_slots sample_libs
            (snd (store_appointment sample_libs (with_file ''appointments.csv'' two_spellings_table)
                    ''appointments.csv'' ''30-05-2025'' ''10:00'' ''dentist'' ''Alice''))
            ''appointments.csv'' ''30-05-2025'') = Inr [PStr ''10:00'']"
  by (simp add: store_appointment_def get_free_slots_def with_file_def
        two_spellings_table_def slot_def lower_False lower_True write_rows_def emit_def
        to_datetime_def sample_libs_def sample_to_datetime_cell_def sample_read_cell_def
        is_free_def sample_parse_date_def)

subsection \<open>The two normalisations of a date\<close>

text \<open>
  Claim C2 says that the normalisation of a stored date agrees with the day-first
  normalisation of the same date given as input. The input is parsed with
  \<^verbatim>\<open>dayfirst=True\<close>, the stored column by \<^verbatim>\<open>pd.to_datetime\<close> without it. For a row
  stored under \<^verbatim>\<open>05-06-2025\<close>, the stored date is normalised to \<^verbatim>\<open>2025-05-06\<close> and the
  input \<^verbatim>\<open>05-06-2025\<close> to \<^verbatim>\<open>2025-06-05\<close>, so the free slots of \<^verbatim>\<open>05-06-2025\<close> do
  not hold the free slot stored under that very text.
\<close>

theorem stored_date_read_month_first:
  "to_datetime sample_libs (map date day_first_table) = Inr [Some ''2025-05-06'']
   \<and> parse_date sample_libs ''05-06-2025'' = Inr ''2025-06-05''
   \<and> fst (get_free_slots sample_libs (with_file ''appointments.csv'' day_first_table)
            ''appointments.csv'' ''05-06-2025'') = Inr []"
  by (simp add: get_free_slots_def with_file_def day_first_table_def slot_def lower_False
        lower_True emit_def to_datetime_def sample_libs_def sample_to_datetime_cell_def
        sample_read_cell_def is_free_def sample_parse_date_def)

subsection \<open>Booking without a free row\<close>

text \<open>
  Claim C3. When the date parses and the table has no row with the canonical date, the
  given time and \<^verbatim>\<open>is_booked\<close> false, \<^verbatim>\<open>store_appointment\<close> returns \<^verbatim>\<open>False\<close>, every
  file is what it was, and no write is logged.
\<close>

theorem store_appointment_no_free_row:
  assumes "parse_date L d = Inr fd"
    and "\<forall>rows. files w path = Some rows \<longrightarrow>
           \<not> (\<exists>r\<in>set rows. date r = fd \<and> time r = t \<and> lower (is_booked r) = ''false'')"
  shows "fst (store_appointment L w path d t p n) = Inr False
       \<and> files (snd (store_appointment L w path d t p n)) = files w
       \<and> filter is_write (io_log (snd (store_appointment L w path d t p n)))
           = filter is_write (io_log w)"
  using assms
  by (cases "files w path") (auto simp: store_appointment_def store_loop_eq emit_def)

theorem store_appointment_no_free_row_witness:
  "fst (store_appointment sample_libs
          (with_file ''appointments.csv'' [slot ''2025-05-30'' ''10:00'' ''True'' ''dentist'' ''Alice''])
          ''appointments.csv'' ''30-05-2025'' ''10:00'' ''eye'' ''Bob'') = Inr False
   \<and> files (snd (store_appointment sample_libs
          (with_file ''appointments.csv'' [slot ''2025-05-30'' ''10:00'' ''True'' ''dentist'' ''Alice''])
          ''appointments.csv'' ''30-05-2025'' ''10:00'' ''eye'' ''Bob''))
       = files (with_file ''appointments.csv'' [slot ''2025-05-30'' ''10:00'' ''True'' ''dentist'' ''Alice''])"
proof -
  have "\<forall>rows. files (with_file ''appointments.csv''
                  [slot ''2025-05-30'' ''10:00'' ''True'' ''dentist'' ''Alice'']) ''appointments.csv''
               = Some rows \<longrightarrow>
          \<not> (\<exists>r\<in>set rows. date r = ''2025-05-30'' \<and> time r = ''10:00''
                \<and> lower (is_booked r) = ''false'')"
    using lower_True by (simp add: with_file_def slot_def)
  from store_appointment_no_free_row [OF sample_parse_30_05 this]
  show ?thesis by simp
qed

subsection \<open>A missing ledger file\<close>

text \<open>
  Claim C4. When the date parses and there is no file at the path, \<^verbatim>\<open>get_free_slots\<close>
  returns the empty list and \<^verbatim>\<open>store_appointment\<close> and \<^verbatim>\<open>cancel_appointment\<close> return
  \<^verbatim>\<open>False\<close>; none of the three raises.
\<close>

theorem missing_file_is_no_data:
  assumes "parse_date L d = Inr fd" and "files w path = None"
  shows "fst (get_free_slots L w path d) = Inr []
       \<and> fst (store_appointment L w path d t p n) = Inr False
       \<and> fst (cancel_appointment L w path d n) = Inr False"
  using assms by (simp add: get_free_slots_def store_appointment_def cancel_appointment_def)

theorem missing_file_is_no_data_witness:
  "fst (get_free_slots sample_libs no_files ''appointments.csv'' ''30-05-2025'') = Inr []
   \<and> fst (store_appointment sample_libs no_files ''appointments.csv'' ''30-05-2025''
            ''10:00'' ''dentist'' ''Alice'') = Inr False
   \<and> fst (cancel_appointment sample_libs no_files ''appointments.csv'' ''30-05-2025'' ''Alice'')
       = Inr False"
proof -
  have "files no_files ''appointments.csv'' = None"
    by (simp add: no_files_def)
  from missing_file_is_no_data [OF sample_parse_30_05 this]
  show ?thesis by simp
qed

subsection \<open>Cancelling twice\<close>

text \<open>
  Claim C5. When the date parses, a second \<^verbatim>\<open>cancel_appointment\<close> with the same
  arguments, run on the world the first one left, returns \<^verbatim>\<open>False\<close>.
\<close>

theorem cancel_twice_returns_false:
  assumes "parse_date L d = Inr fd"
  shows "fst (cancel_appointment L (snd (cancel_appointment L w path d n)) path d n) = Inr False"
proof (cases "files w path")
  case None
  then show ?thesis using assms
    by (simp add: cancel_appointment_def emit_def)
next
  case (Some reader)
  have "files (snd (cancel_appointment L w path d n)) path = Some (map (cancel_row fd n) reader)"
    using cancel_appointment_files [OF assms Some] by simp
  moreover have "\<not> (\<exists>r\<in>set (map (cancel_row fd n) reader). date r = fd
       \<and> lower (strip (name r)) = lower (strip n) \<and> lower (strip (is_booked r)) = ''true'')"
    using cancel_row_unmatched by auto
  ultimately show ?thesis using assms
    by (simp add: cancel_appointment_def [of L "snd (cancel_appointment L w path d n)"]
          cancel_loop_eq)
qed

theorem cancel_twice_returns_false_witness:
  "fst (cancel_appointment sample_libs (with_file ''appointments.csv'' sample_table)
          ''appointments.csv'' ''30-05-2025'' ''bob'') = Inr True
   \<and> fst (cancel_appointment sample_libs
          (snd (cancel_appointment sample_libs (with_file ''appointments.csv'' sample_table)
             ''appointments.csv'' ''30-05-2025'' ''bob''))
          ''appointments.csv'' ''30-05-2025'' ''bob'') = Inr False"
proof -
  have "fst (cancel_appointment sample_libs (with_file ''appointments.csv'' sample_table)
          ''appointments.csv'' ''30-05-2025'' ''bob'') = Inr True"
    using lower_strip_True lower_strip_names
    by (simp add: cancel_appointment_def sample_parse_30_05 with_file_def sample_table_def
          slot_def)
  with cancel_twice_returns_false [OF sample_parse_30_05]
  show ?thesis by simp
qed

subsection \<open>The rows of the table stay\<close>

text \<open>
  Claim C6. After \<^verbatim>\<open>store_appointment\<close>, and after \<^verbatim>\<open>cancel_appointment\<close>, on any
  input, the file holds as many rows as before, with the same dates and the same times
  in the same order; a row that differs from the row before is a matching row, with
  only \<^verbatim>\<open>is_booked\<close>, \<^verbatim>\<open>purpose\<close> and \<^verbatim>\<open>name\<close> set.
\<close>

theorem rows_keep_their_place:
  assumes "files w path = Some rows"
  shows "(\<exists>rows'. files (snd (store_appointment L w path d t p n)) path = Some rows'
            \<and> length rows' = length rows
            \<and> map date rows' = map date rows \<and> map time rows' = map time rows
            \<and> (\<forall>i<length rows. rows' ! i = rows ! i
                   \<or> booked_from L d t p n (rows ! i) (rows' ! i)))
       \<and> (\<exists>rows'. files (snd (cancel_appointment L w path d n)) path = Some rows'
            \<and> length rows' = length rows
            \<and> map date rows' = map date rows \<and> map time rows' = map time rows
            \<and> (\<forall>i<length rows. rows' ! i = rows ! i
                   \<or> cancelled_from L d n (rows ! i) (rows' ! i)))"
proof (cases "parse_date L d")
  case (Inl e)
  then show ?thesis using assms
    by (simp add: store_appointment_files_error cancel_appointment_files_error)
next
  case (Inr fd)
  have b: "files (snd (store_appointment L w path d t p n)) path
             = Some (map (book_row fd t p n) rows)"
    using store_appointment_files [OF Inr assms] by simp
  have c: "files (snd (cancel_appointment L w path d n)) path
             = Some (map (cancel_row fd n) rows)"
    using cancel_appointment_files [OF Inr assms] by simp
  have b1: "map date (map (book_row fd t p n) rows) = map date rows"
    by (simp add: book_row_def)
  have b2: "map time (map (book_row fd t p n) rows) = map time rows"
    by (simp add: book_row_def)
  have b3: "\<forall>i<length rows. map (book_row fd t p n) rows ! i = rows ! i
              \<or> booked_from L d t p n (rows ! i) (map (book_row fd t p n) rows ! i)"
    using Inr by (simp add: book_row_def booked_from_def)
  have c1: "map date (map (cancel_row fd n) rows) = map date rows"
    by (simp add: cancel_row_def)
  have c2: "map time (map (cancel_row fd n) rows) = map time rows"
    by (simp add: cancel_row_def)
  have c3: "\<forall>i<length rows. map (cancel_row fd n) rows ! i = rows ! i
              \<or> cancelled_from L d n (rows ! i) (map (cancel_row fd n) rows ! i)"
    using Inr by (simp add: cancel_row_def cancelled_from_def)
  show ?thesis
    using b c b1 b2 b3 c1 c2 c3 by simp
qed

theorem rows_keep_their_place_witness:
  "(\<exists>rows'. files (snd (store_appointment sample_libs (with_file ''appointments.csv'' sample_table)
                ''appointments.csv'' ''30-05-2025'' ''10:00'' ''dentist'' ''Alice''))
            ''appointments.csv'' = Some rows'
        \<and> length rows' = length sample_table
        \<and> map date rows' = map date sample_table \<and> map time rows' = map time sample_table)
   \<and> (\<exists>rows'. files (snd (cancel_appointment sample_libs (with_file ''appointments.csv'' sample_table)
                ''appointments.csv'' ''30-05-2025'' ''bob''))
            ''appointments.csv'' = Some rows'
        \<and> length rows' = length sample_table
        \<and> map date rows' = map date sample_table \<and> map time rows' = map time sample_table)"
  using rows_keep_their_place [OF sample_table_file, where path = "''appointments.csv''"
      and L = sample_libs and d = "''30-05-2025''" and t = "''10:00''" and p = "''dentist''"
      and n = "''bob''"]
    rows_keep_their_place [OF sample_table_file, where path = "''appointments.csv''"
      and L = sample_libs and d = "''30-05-2025''" and t = "''10:00''" and p = "''dentist''"
      and n = "''Alice''"]
  by blast

subsection \<open>The free slots are free\<close>

text \<open>
  Claim C7. When the date parses and the file is there, the labels \<^verbatim>\<open>get_free_slots\<close>
  returns are the time cells of a selection of the rows, in the order of the file; every
  selected row has an \<^verbatim>\<open>is_booked\<close> cell that reads \<^verbatim>\<open>false\<close> once lowered, and no row
  whose cell reads \<^verbatim>\<open>true\<close> is selected.
\<close>

theorem free_slots_are_free_rows:
  assumes "parse_date L d = Inr fd" and "files w path = Some df"
    and "get_free_slots L w path d = (Inr slots, w')"
  shows "\<exists>sel. subseq sel df
           \<and> slots = map (\<lambda>r. read_cell L (map time df) (time r)) sel
           \<and> (\<forall>r\<in>set sel. lower (py_str (read_cell L (map is_booked df) (is_booked r))) = ''false'')
           \<and> (\<forall>r\<in>set df. lower (py_str (read_cell L (map is_booked df) (is_booked r))) = ''true''
                  \<longrightarrow> r \<notin> set sel)"
proof -
  let ?sel = "filter (listed L df fd) df"
  have "subseq ?sel df" by simp
  moreover have "slots = map (\<lambda>r. read_cell L (map time df) (time r)) ?sel"
    using get_free_slots_filter [OF assms] .
  moreover have "\<forall>r\<in>set ?sel.
      lower (py_str (read_cell L (map is_booked df) (is_booked r))) = ''false''"
    by (simp add: listed_def)
  moreover have "\<forall>r\<in>set df.
      lower (py_str (read_cell L (map is_booked df) (is_booked r))) = ''true'' \<longrightarrow> r \<notin> set ?sel"
    by (simp add: listed_def)
  ultimately show ?thesis by blast
qed

theorem free_slots_are_free_rows_witness:
  "fst (get_free_slots sample_libs (with_file ''appointments.csv'' sample_table)
          ''appointments.csv'' ''30-05-2025'') = Inr [PStr ''10:00'']
   \<and> (\<exists>sel. subseq sel sample_table
         \<and> [PStr ''10:00''] = map (\<lambda>r. read_cell sample_libs (map time sample_table) (time r)) sel
         \<and> (\<forall>r\<in>set sel. lower (py_str (read_cell sample_libs (map is_booked sample_table)
                                        (is_booked r))) = ''false''))"
  using free_slots_are_free_rows [OF sample_parse_30_05 sample_table_file sample_table_free_slots]
    sample_table_free_slots
  by auto

subsection \<open>A date the parser rejects\<close>

text \<open>
  Claim C8 says that on every date string that cannot be parsed, the three operations
  fail with the error \<^verbatim>\<open>ValueError("Unable to parse the date: ...")\<close>. The source
  catches \<^verbatim>\<open>(ValueError, TypeError)\<close> only. The parser leaves
  \<^verbatim>\<open>99999999999999999999\<close> with an \<^verbatim>\<open>OverflowError\<close>, and each of the three
  operations then fails with that exception, not with the error of the claim.
\<close>

theorem overflow_date_is_not_wrapped:
  "fst (get_free_slots sample_libs (with_file ''appointments.csv'' sample_table)
          ''appointments.csv'' ''99999999999999999999'')
     = Inl (Exception ''Python int too large to convert to C long'')
   \<and> fst (store_appointment sample_libs (with_file ''appointments.csv'' sample_table)
            ''appointments.csv'' ''99999999999999999999'' ''10:00'' ''dentist'' ''Alice'')
       = Inl (Exception ''Python int too large to convert to C long'')
   \<and> fst (cancel_appointment sample_libs (with_file ''appointments.csv'' sample_table)
            ''appointments.csv'' ''99999999999999999999'' ''Bob'')
       = Inl (Exception ''Python int too large to convert to C long'')
   \<and> fst (get_free_slots sample_libs (with_file ''appointments.csv'' sample_table)
            ''appointments.csv'' ''99999999999999999999'')
       \<noteq> Inl (ValueError ''Unable to parse the date: 99999999999999999999'')"
  by (simp add: get_free_slots_def store_appointment_def cancel_appointment_def
        sample_parse_overflow)

text \<open>
  Claim C8, amended. On every date string the parser rejects, with an exception of any
  class, each of the three operations fails and returns the world it was given: no file
  is opened or written, nothing is printed. The failure is
  \<^verbatim>\<open>ValueError("Unable to parse the date: ...")\<close> when the parser raised a
  \<^verbatim>\<open>ValueError\<close> or a \<^verbatim>\<open>TypeError\<close>, and the exception of the parser otherwise.
\<close>

theorem unparseable_date_fails_first:
  assumes "parse_date L d = Inl e"
  shows "get_free_slots L w path d
           = (Inl (case e of ValueError m \<Rightarrow> ValueError (''Unable to parse the date: '' @ d)
                           | TypeError m \<Rightarrow> ValueError (''Unable to parse the date: '' @ d)
                           | Exception m \<Rightarrow> Exception m), w)
       \<and> store_appointment L w path d t p n
           = (Inl (case e of ValueError m \<Rightarrow> ValueError (''Unable to parse the date: '' @ d)
                           | TypeError m \<Rightarrow> ValueError (''Unable to parse the date: '' @ d)
                           | Exception m \<Rightarrow> Exception m), w)
       \<and> cancel_appointment L w path d n
           = (Inl (case e of ValueError m \<Rightarrow> ValueError (''Unable to parse the date: '' @ d)
                           | TypeError m \<Rightarrow> ValueError (''Unable to parse the date: '' @ d)
                           | Exception m \<Rightarrow> Exception m), w)"
  using assms
  by (cases e) (simp_all add: get_free_slots_def store_appointment_def cancel_appointment_def)

theorem unparseable_date_fails_first_witness:
  "get_free_slots sample_libs (with_file ''appointments.csv'' sample_table)
       ''appointments.csv'' ''not-a-date''
     = (Inl (ValueError ''Unable to parse the date: not-a-date''),
        with_file ''appointments.csv'' sample_table)
   \<and> store_appointment sample_libs (with_file ''appointments.csv'' sample_table)
       ''appointments.csv'' ''not-a-date'' ''10:00'' ''dentist'' ''Alice''
     = (Inl (ValueError ''Unable to parse the date: not-a-date''),
        with_file ''appointments.csv'' sample_table)
   \<and> cancel_appointment sample_libs (with_file ''appointments.csv'' sample_table)
       ''appointments.csv'' ''not-a-date'' ''Alice''
     = (Inl (ValueError ''Unable to parse the date: not-a-date''),
        with_file ''appointments.csv'' sample_table)
   \<and> cancel_appointment sample_libs (with_file ''appointments.csv'' sample_table)
       ''appointments.csv'' ''99999999999999999999'' ''Alice''
     = (Inl (Exception ''Python int too large to convert to C long''),
        with_file ''appointments.csv'' sample_table)"
  using unparseable_date_fails_first [OF sample_parse_not_a_date]
    unparseable_date_fails_first [OF sample_parse_overflow]
  by simp

subsection \<open>The path of the cancel tool\<close>

lemma cancel_tool_world:
  "\<exists>evs. snd (snd (AppointmentAgent_cancel_appointment L u w n d))
          = emit (snd (cancel_appointment L w ''appointments.csv'' d n)) evs"
proof (cases "cancel_appointment L w ''appointments.csv'' d n")
  case (Pair r w1)
  show ?thesis
  proof (cases r)
    case (Inl e)
    have "w1 = emit w1 []" by (simp add: emit_def)
    with Pair Inl show ?thesis
      by (auto simp: AppointmentAgent_cancel_appointment_def)
  next
    case (Inr b)
    with Pair show ?thesis
      by (auto simp: AppointmentAgent_cancel_appointment_def Let_def)
  qed
qed

lemma saved_tool_world:
  "\<exists>evs. snd (snd (AppointmentAgent_appointment_saved L u w d t p n))
          = emit (snd (store_appointment L w (appointment_csv u) d t p n)) evs"
proof (cases "store_appointment L w (appointment_csv u) d t p n")
  case (Pair r w1)
  show ?thesis
  proof (cases r)
    case (Inl e)
    have "w1 = emit w1 []" by (simp add: emit_def)
    with Pair Inl show ?thesis
      by (auto simp: AppointmentAgent_appointment_saved_def)
  next
    case (Inr b)
    with Pair show ?thesis
      by (auto simp: AppointmentAgent_appointment_saved_def Let_def)
  qed
qed

lemma cancel_tool_rejected_date:
  assumes "parse_date L d = Inl e"
  shows "AppointmentAgent_cancel_appointment L u w n d = (Inl (reraise d e), u, w)"
  using assms by (simp add: AppointmentAgent_cancel_appointment_def cancel_appointment_def)

lemma cancel_tool_missing_file:
  assumes "parse_date L d = Inr fd" and "files w ''appointments.csv'' = None"
  shows "AppointmentAgent_cancel_appointment L u w n d
         = (Inr ''Could not find an appointment to cancel.'', u,
            w\<lparr>io_log := io_log w @ [OpenRead ''appointments.csv'',
                                   Print ''CSV file not found: appointments.csv'',
                                   Say ''Could not find an appointment to cancel.'']\<rparr>)"
  using assms
  by (simp add: AppointmentAgent_cancel_appointment_def cancel_appointment_def emit_def Let_def)

lemma cancel_tool_cancels:
  assumes "parse_date L d = Inr fd" and "files w ''appointments.csv'' = Some rows"
    and "list_ex (cancels fd n) rows"
  shows "AppointmentAgent_cancel_appointment L u w n d
         = (Inr ''Your appointment has been canceled.'', u,
            w\<lparr>files := (files w)(''appointments.csv'' := Some (map (cancel_row fd n) rows)),
              io_log := io_log w @ [OpenRead ''appointments.csv'', WriteFile ''appointments.csv'',
                                   Say ''Your appointment has been canceled.'']\<rparr>)"
  using cancel_appointment_present [OF assms(1,2), of n] assms(3)
  by (simp add: AppointmentAgent_cancel_appointment_def emit_def Let_def)

lemma cancel_tool_finds_nothing:
  assumes "parse_date L d = Inr fd" and "files w ''appointments.csv'' = Some rows"
    and "\<not> list_ex (cancels fd n) rows"
  shows "AppointmentAgent_cancel_appointment L u w n d
         = (Inr ''Could not find an appointment to cancel.'', u,
            w\<lparr>io_log := io_log w @ [OpenRead ''appointments.csv'',
                                   Say ''Could not find an appointment to cancel.'']\<rparr>)"
  using cancel_appointment_present [OF assms(1,2), of n] assms(3)
  by (simp add: AppointmentAgent_cancel_appointment_def emit_def Let_def)

lemma saved_tool_books:
  assumes "parse_date L d = Inr fd" and "files w (appointment_csv u) = Some rows"
    and "list_ex (\<lambda>r. date r = fd \<and> time r = t \<and> lower (is_booked r) = ''false'') rows"
  shows "AppointmentAgent_appointment_saved L u w d t p n
         = (Inr ''The appointment has been saved.'', u,
            w\<lparr>files := (files w)(appointment_csv u := Some (map (book_row fd t p n) rows)),
              io_log := io_log w @ [OpenRead (appointment_csv u), WriteFile (appointment_csv u),
                                   Say ''The appointment has been saved.'']\<rparr>)"
  using store_appointment_present [OF assms(1,2), of t p n] assms(3)
  by (simp add: AppointmentAgent_appointment_saved_def emit_def Let_def)

lemma sample_cancels_bob: "list_ex (cancels ''2025-05-30'' ''Bob'') sample_table"
  by code_simp

lemma sample_cancels_alice: "\<not> list_ex (cancels ''2025-05-30'' ''Alice'') sample_table"
  by code_simp

lemma sample_cancel_rows:
  "map (cancel_row ''2025-05-30'' ''Bob'') sample_table
     = [slot ''2025-05-30'' ''10:00'' ''False'' [] [],
        slot ''2025-05-30'' ''11:00'' ''False'' [] []]"
  by code_simp

lemma sample_books_10:
  "list_ex (\<lambda>r. date r = ''2025-05-30'' \<and> time r = ''10:00'' \<and> lower (is_booked r) = ''false'')
     sample_table"
  by code_simp

lemma sample_book_rows:
  "map (book_row ''2025-05-30'' ''10:00'' ''dentist'' ''Alice'') sample_table
     = [slot ''2025-05-30'' ''10:00'' ''True'' ''dentist'' ''Alice'',
        slot ''2025-05-30'' ''11:00'' ''True'' ''eye'' ''Bob'']"
  by code_simp

lemma two_ledgers_fixed: "files two_ledgers ''appointments.csv'' = Some sample_table"
  by (simp add: two_ledgers_def)

lemma two_ledgers_clinic: "files two_ledgers (appointment_csv clinic_userdata) = Some sample_table"
  by (simp add: two_ledgers_def clinic_userdata_def default_userdata_def)

lemma clinic_path: "appointment_csv clinic_userdata = ''clinic.csv''"
  by (simp add: clinic_userdata_def default_userdata_def)

text \<open>
  Claim C9. The cancel tool works on the file at the fixed path \<^verbatim>\<open>appointments.csv\<close>,
  whatever \<^verbatim>\<open>UserData.appointment_csv\<close> is. When the date parses it opens that file;
  when a row there has the date, the name and \<^verbatim>\<open>is_booked\<close> true, it rewrites that file
  with every such row cancelled and answers that the appointment is cancelled; otherwise
  it answers that it found none, and writes nothing. Its result and its world are the
  same for every configured path. \<^verbatim>\<open>appointment_saved\<close> books in the file at the
  configured path and changes no other file. So with another path configured, the
  cancellation leaves the file of the bookings as it was.
\<close>

theorem cancel_tool_ignores_configured_path:
  "(\<forall>e. parse_date L d = Inl e \<longrightarrow>
       AppointmentAgent_cancel_appointment L u w n d = (Inl (reraise d e), u, w))
   \<and> (\<forall>fd. parse_date L d = Inr fd \<and> files w ''appointments.csv'' = None \<longrightarrow>
       AppointmentAgent_cancel_appointment L u w n d
         = (Inr ''Could not find an appointment to cancel.'', u,
            w\<lparr>io_log := io_log w @ [OpenRead ''appointments.csv'',
                                   Print ''CSV file not found: appointments.csv'',
                                   Say ''Could not find an appointment to cancel.'']\<rparr>))
   \<and> (\<forall>fd rows. parse_date L d = Inr fd \<and> files w ''appointments.csv'' = Some rows
          \<and> list_ex (cancels fd n) rows \<longrightarrow>
       AppointmentAgent_cancel_appointment L u w n d
         = (Inr ''Your appointment has been canceled.'', u,
            w\<lparr>files := (files w)(''appointments.csv'' := Some (map (cancel_row fd n) rows)),
              io_log := io_log w @ [OpenRead ''appointments.csv'', WriteFile ''appointments.csv'',
                                   Say ''Your appointment has been canceled.'']\<rparr>))
   \<and> (\<forall>fd rows. parse_date L d = Inr fd \<and> files w ''appointments.csv'' = Some rows
          \<and> \<not> list_ex (cancels fd n) rows \<longrightarrow>
       AppointmentAgent_cancel_appointment L u w n d
         = (Inr ''Could not find an appointment to cancel.'', u,
            w\<lparr>io_log := io_log w @ [OpenRead ''appointments.csv'',
                                   Say ''Could not find an appointment to cancel.'']\<rparr>))
   \<and> (\<forall>fd rows. parse_date L d = Inr fd \<and> files w (appointment_csv u) = Some rows
          \<and> list_ex (\<lambda>r. date r = fd \<and> time r = t \<and> lower (is_booked r) = ''false'') rows \<longrightarrow>
       AppointmentAgent_appointment_saved L u w d t p n
         = (Inr ''The appointment has been saved.'', u,
            w\<lparr>files := (files w)(appointment_csv u := Some (map (book_row fd t p n) rows)),
              io_log := io_log w @ [OpenRead (appointment_csv u), WriteFile (appointment_csv u),
                                   Say ''The appointment has been saved.'']\<rparr>))
   \<and> AppointmentAgent_cancel_appointment L (u\<lparr>appointment_csv := q\<rparr>) w n d
       = (fst (AppointmentAgent_cancel_appointment L u w n d), u\<lparr>appointment_csv := q\<rparr>,
          snd (snd (AppointmentAgent_cancel_appointment L u w n d)))
   \<and> (appointment_csv u \<noteq> ''appointments.csv'' \<longrightarrow>
        files (snd (snd (AppointmentAgent_cancel_appointment L u w n d))) (appointment_csv u)
          = files w (appointment_csv u))
   \<and> (\<forall>q'. q' \<noteq> appointment_csv u \<longrightarrow>
        files (snd (snd (AppointmentAgent_appointment_saved L u w d t p n))) q' = files w q')"
proof -
  obtain evs where e: "snd (snd (AppointmentAgent_cancel_appointment L u w n d))
            = emit (snd (cancel_appointment L w ''appointments.csv'' d n)) evs"
    using cancel_tool_world by blast
  have a: "AppointmentAgent_cancel_appointment L (u\<lparr>appointment_csv := q\<rparr>) w n d
       = (fst (AppointmentAgent_cancel_appointment L u w n d), u\<lparr>appointment_csv := q\<rparr>,
          snd (snd (AppointmentAgent_cancel_appointment L u w n d)))"
    by (auto simp: AppointmentAgent_cancel_appointment_def Let_def split: prod.splits sum.splits)
  have b: "appointment_csv u \<noteq> ''appointments.csv'' \<longrightarrow>
        files (snd (snd (AppointmentAgent_cancel_appointment L u w n d))) (appointment_csv u)
          = files w (appointment_csv u)"
    using e by (simp add: files_emit cancel_appointment_other_files)
  obtain evs' where e': "snd (snd (AppointmentAgent_appointment_saved L u w d t p n))
          = emit (snd (store_appointment L w (appointment_csv u) d t p n)) evs'"
    using saved_tool_world by blast
  have c: "\<forall>q'. q' \<noteq> appointment_csv u \<longrightarrow>
        files (snd (snd (AppointmentAgent_appointment_saved L u w d t p n))) q' = files w q'"
    using e' by (simp add: files_emit store_appointment_other_files)
  show ?thesis
    using cancel_tool_rejected_date [of L d _ u w n]
      cancel_tool_missing_file [of L d _ w u n]
      cancel_tool_cancels [of L d _ w _ n u]
      cancel_tool_finds_nothing [of L d _ w _ n u]
      saved_tool_books [of L d _ w u _ t p n]
      a b c
    by (intro conjI allI impI) (blast+)
qed

text \<open>
  A session on \<^verbatim>\<open>clinic.csv\<close>, with a ledger at each of the two paths. Cancelling for
  Bob cancels his slot in \<^verbatim>\<open>appointments.csv\<close> and leaves \<^verbatim>\<open>clinic.csv\<close> alone.
  Booking 10:00 for Alice writes \<^verbatim>\<open>clinic.csv\<close>; cancelling for Alice then finds
  nothing, and her booking stays.
\<close>

theorem cancel_tool_ignores_configured_path_witness:
  "AppointmentAgent_cancel_appointment sample_libs clinic_userdata two_ledgers ''Bob'' ''30-05-2025''
     = (Inr ''Your appointment has been canceled.'', clinic_userdata,
        two_ledgers\<lparr>files := (files two_ledgers)(''appointments.csv'' :=
                        Some [slot ''2025-05-30'' ''10:00'' ''False'' [] [],
                              slot ''2025-05-30'' ''11:00'' ''False'' [] []]),
                    io_log := [OpenRead ''appointments.csv'', WriteFile ''appointments.csv'',
                               Say ''Your appointment has been canceled.'']\<rparr>)
   \<and> files (snd (snd (AppointmentAgent_cancel_appointment sample_libs clinic_userdata two_ledgers
                        ''Bob'' ''30-05-2025''))) ''clinic.csv''
       = Some sample_table
   \<and> fst (AppointmentAgent_appointment_saved sample_libs clinic_userdata two_ledgers
            ''30-05-2025'' ''10:00'' ''dentist'' ''Alice'')
       = Inr ''The appointment has been saved.''
   \<and> files (snd (snd (AppointmentAgent_appointment_saved sample_libs clinic_userdata two_ledgers
                        ''30-05-2025'' ''10:00'' ''dentist'' ''Alice''))) ''clinic.csv''
       = Some [slot ''2025-05-30'' ''10:00'' ''True'' ''dentist'' ''Alice'',
               slot ''2025-05-30'' ''11:00'' ''True'' ''eye'' ''Bob'']
   \<and> fst (AppointmentAgent_cancel_appointment sample_libs clinic_userdata
            (snd (snd (AppointmentAgent_appointment_saved sample_libs clinic_userdata two_ledgers
                         ''30-05-2025'' ''10:00'' ''dentist'' ''Alice'')))
            ''Alice'' ''30-05-2025'')
       = Inr ''Could not find an appointment to cancel.''
   \<and> files (snd (snd (AppointmentAgent_cancel_appointment sample_libs clinic_userdata
            (snd (snd (AppointmentAgent_appointment_saved sample_libs clinic_userdata two_ledgers
                         ''30-05-2025'' ''10:00'' ''dentist'' ''Alice'')))
            ''Alice'' ''30-05-2025''))) ''clinic.csv''
       = Some [slot ''2025-05-30'' ''10:00'' ''True'' ''dentist'' ''Alice'',
               slot ''2025-05-30'' ''11:00'' ''True'' ''eye'' ''Bob'']"
proof -
  let ?saved = "AppointmentAgent_appointment_saved sample_libs clinic_userdata two_ledgers
                  ''30-05-2025'' ''10:00'' ''dentist'' ''Alice''"
  have log: "io_log two_ledgers = []"
    by (simp add: two_ledgers_def)
  have c1: "AppointmentAgent_cancel_appointment sample_libs clinic_userdata two_ledgers
              ''Bob'' ''30-05-2025''
     = (Inr ''Your appointment has been canceled.'', clinic_userdata,
        two_ledgers\<lparr>files := (files two_ledgers)(''appointments.csv'' :=
                        Some [slot ''2025-05-30'' ''10:00'' ''False'' [] [],
                              slot ''2025-05-30'' ''11:00'' ''False'' [] []]),
                    io_log := [OpenRead ''appointments.csv'', WriteFile ''appointments.csv'',
                               Say ''Your appointment has been canceled.'']\<rparr>)"
    using cancel_tool_ignores_configured_path [of sample_libs "''30-05-2025''" clinic_userdata two_ledgers "''Bob''"]
      sample_parse_30_05 two_ledgers_fixed sample_cancels_bob sample_cancel_rows log
    by simp
  have c2: "files (snd (snd (AppointmentAgent_cancel_appointment sample_libs clinic_userdata
                        two_ledgers ''Bob'' ''30-05-2025''))) ''clinic.csv'' = Some sample_table"
    unfolding c1 by (simp add: two_ledgers_def)
  have s1: "?saved
     = (Inr ''The appointment has been saved.'', clinic_userdata,
        two_ledgers\<lparr>files := (files two_ledgers)(''clinic.csv'' :=
                        Some [slot ''2025-05-30'' ''10:00'' ''True'' ''dentist'' ''Alice'',
                              slot ''2025-05-30'' ''11:00'' ''True'' ''eye'' ''Bob'']),
                    io_log := [OpenRead ''clinic.csv'', WriteFile ''clinic.csv'',
                               Say ''The appointment has been saved.'']\<rparr>)"
    using cancel_tool_ignores_configured_path [of sample_libs "''30-05-2025''" clinic_userdata two_ledgers _ "''10:00''"
        "''dentist''" "''Alice''"]
      sample_parse_30_05 two_ledgers_clinic sample_books_10 sample_book_rows log clinic_path
    by simp
  have f1: "files (snd (snd ?saved)) ''appointments.csv'' = Some sample_table"
    unfolding s1 by (simp add: two_ledgers_def)
  have c3: "AppointmentAgent_cancel_appointment sample_libs clinic_userdata (snd (snd ?saved))
              ''Alice'' ''30-05-2025''
     = (Inr ''Could not find an appointment to cancel.'', clinic_userdata,
        (snd (snd ?saved))\<lparr>io_log := io_log (snd (snd ?saved)) @ [OpenRead ''appointments.csv'',
                                   Say ''Could not find an appointment to cancel.'']\<rparr>)"
    using cancel_tool_ignores_configured_path [of sample_libs "''30-05-2025''" clinic_userdata "snd (snd ?saved)" "''Alice''"]
      sample_parse_30_05 f1 sample_cancels_alice
    by blast
  have c4: "files (snd (snd (AppointmentAgent_cancel_appointment sample_libs clinic_userdata
              (snd (snd ?saved)) ''Alice'' ''30-05-2025''))) ''clinic.csv''
       = Some [slot ''2025-05-30'' ''10:00'' ''True'' ''dentist'' ''Alice'',
               slot ''2025-05-30'' ''11:00'' ''True'' ''eye'' ''Bob'']"
    unfolding c3 by (simp add: s1)
  show ?thesis
    using c1 c2 c3 c4 s1 by simp
qed

subsection \<open>The exceptions of the slot tool\<close>

text \<open>
  What \<^verbatim>\<open>get_available_slots\<close> does on every input: it records the date as it was
  given, and it turns an exception of \<^verbatim>\<open>get_free_slots\<close> into the empty list.
\<close>

lemma get_available_slots_records_date:
  "selected_date (fst (snd (AppointmentAgent_get_available_slots L u w d))) = Some d"
  by (auto simp: AppointmentAgent_get_available_slots_def Let_def
        split: prod.splits sum.splits)

lemma get_available_slots_catches_lookup:
  assumes "get_free_slots L w (appointment_csv u) d = (Inl e, w1)"
  shows "fst (AppointmentAgent_get_available_slots L u w d) = Inr []"
  using assms by (simp add: AppointmentAgent_get_available_slots_def Let_def)

lemma join_from_text:
  "(\<forall>v\<in>set items. \<exists>s. v = PStr s) \<Longrightarrow> \<exists>joined. join_from i sep items = Inr joined"
proof (induction items arbitrary: i)
  case Nil
  then show ?case by simp
next
  case (Cons v items)
  then obtain s where v: "v = PStr s" by auto
  from Cons obtain rest where "join_from (Suc i) sep items = Inr rest" by fastforce
  with v show ?case by simp
qed

lemma get_available_slots_text_labels:
  assumes "get_free_slots L w (appointment_csv u) d = (Inr slots, w1)"
    and "\<forall>v\<in>set slots. \<exists>s. v = PStr s"
  shows "\<exists>l. fst (AppointmentAgent_get_available_slots L u w d) = Inr l"
proof -
  from join_from_text [OF assms(2)] obtain joined where "join '', '' slots = Inr joined"
    by (auto simp: join_def)
  with assms(1) show ?thesis
    by (simp add: AppointmentAgent_get_available_slots_def Let_def)
qed

text \<open>
  Claim C10 says that \<^verbatim>\<open>get_available_slots\<close> never raises. The labels are joined with
  \<^verbatim>\<open>', '.join(slots)\<close> outside the \<^verbatim>\<open>try\<close>. On a table whose time column holds the
  hour \<^verbatim>\<open>9\<close>, the free slots of \<^verbatim>\<open>30-05-2025\<close> are \<^verbatim>\<open>[9]\<close>, an integer, and the tool
  raises the \<^verbatim>\<open>TypeError\<close> of the join; the date was recorded before.
\<close>

theorem get_available_slots_raises_on_number_label:
  "fst (get_free_slots sample_libs (with_file ''appointments.csv'' hour_table)
          ''appointments.csv'' ''30-05-2025'') = Inr [PInt 9]
   \<and> fst (AppointmentAgent_get_available_slots sample_libs default_userdata
            (with_file ''appointments.csv'' hour_table) ''30-05-2025'')
       = Inl (TypeError ''sequence item 0: expected str instance, int found'')
   \<and> selected_date (fst (snd (AppointmentAgent_get_available_slots sample_libs default_userdata
            (with_file ''appointments.csv'' hour_table) ''30-05-2025''))) = Some ''30-05-2025''"
  by (simp add: AppointmentAgent_get_available_slots_def default_userdata_def
        get_free_slots_def with_file_def hour_table_def slot_def lower_False
        lower_True emit_def to_datetime_def sample_libs_def sample_to_datetime_cell_def
        sample_read_cell_def is_free_def sample_parse_date_def join_def show_nat_0
        del: show_nat.simps)

end
